theory Spec2Isabelle
  imports Main "HOL-Library.AList"
begin

section \<open>The ComfoConnect config flow\<close>

text \<open>
  A shallow embedding of \<^verbatim>\<open>custom_components/comfoconnect/config_flow.py\<close>.
  The flow object's fields and the bridge calls it has made are one record that every
  step takes and returns; a raised exception is the \<open>Inl\<close> of the result. The bridge
  library, the discovery call, the uuid generator and the host platform's registry are
  parameters of the model, collected in the record \<open>env\<close>.
\<close>

subsection \<open>Values, exceptions and results\<close>

text \<open>Python values that occur in a user input dictionary or in the entry data.\<close>

datatype val = VNone | VStr string | VInt int

text \<open>
  The exceptions that can leave a step: the two of aiocomfoconnect that the flow names,
  the platform's \<open>AbortFlow\<close>, the errors of Python's own lookups, and any other
  exception of the library.
\<close>

datatype exn =
    AioComfoConnectTimeout
  | ComfoConnectNotAllowed
  | AbortFlow string
  | KeyError
  | TypeError
  | AttributeError
  | OtherError string

record Bridge =
  host :: string
  uuid :: string

text \<open>The calls on the bridge object, each with its arguments.\<close>

datatype event =
    Connect Bridge string
  | RegisterApp Bridge string string val
  | StartSession Bridge bool
  | Disconnect Bridge

text \<open>The schema a form is shown with, and the three kinds of flow result.\<close>

datatype schema =
    UserSchema "string option" "(string \<times> string) list"
  | ManualSchema "val option"
  | PinSchema

datatype FlowResult =
    Form string "(string \<times> string) list" schema
  | CreateEntry string "(string \<times> val) list"
  | Abort string

subsection \<open>Constants\<close>

definition DEFAULT_PIN :: string where
  "DEFAULT_PIN = ''0000''"

definition COMFOCONNECT_MANUAL_BRIDGE_ID :: string where
  "COMFOCONNECT_MANUAL_BRIDGE_ID = ''manual''"

text \<open>\<open>homeassistant.const\<close> and \<open>config_entries.SOURCE_REAUTH\<close>.\<close>

definition CONF_HOST :: string where
  "CONF_HOST = ''host''"

definition CONF_PIN :: string where
  "CONF_PIN = ''pin''"

definition SOURCE_REAUTH :: string where
  "SOURCE_REAUTH = ''reauth''"

text \<open>
  Modelled from the spec: \<^verbatim>\<open>const.py\<close>, which defines \<open>CONF_UUID\<close> and
  \<open>CONF_LOCAL_UUID\<close>, is not among the source files. The spec names the fields of the
  persisted entry host, uuid and local-uuid. Only the fact that the three keys differ
  from one another is used below.
\<close>

definition CONF_UUID :: string where
  "CONF_UUID = ''uuid''"

definition CONF_LOCAL_UUID :: string where
  "CONF_LOCAL_UUID = ''local-uuid''"

subsection \<open>The environment and the flow\<close>

text \<open>
  What the flow calls and does not define:
  \<^item> \<open>lib\<close>: the bridge library. Given the calls made so far and the call being made,
    the exception it raises, or \<open>None\<close> when the call returns;
  \<^item> \<open>discover_bridges\<close>: the result of \<open>aiocomfoconnect.discover_bridges\<close>, without
    an argument or with a host;
  \<^item> \<open>random_uuid_hex\<close>: the identifier the generator returns;
  \<^item> \<open>current_ids\<close>: the result of \<open>self._async_current_ids(False)\<close>;
  \<^item> \<open>unique_id_configured\<close>: whether \<open>self._abort_if_unique_id_configured()\<close> raises
    for a unique id;
  \<^item> \<open>coerce_int\<close>: Python's \<open>int(v)\<close>, \<open>None\<close> when it raises \<open>ValueError\<close> or
    \<open>TypeError\<close>;
  \<^item> \<open>location_name\<close>: \<open>self.hass.config.location_name\<close>.
\<close>

record env =
  lib :: "event list \<Rightarrow> event \<Rightarrow> exn option"
  discover_bridges :: "val option \<Rightarrow> Bridge list"
  random_uuid_hex :: string
  current_ids :: "string list"
  unique_id_configured :: "string \<Rightarrow> bool"
  coerce_int :: "val \<Rightarrow> int option"
  location_name :: string

text \<open>
  The flow object: the three fields of \<open>__init__\<close>, the entries of \<open>self.context\<close> that
  the flow reads or sets, the bridge calls made so far, and the entries whose reload
  has been scheduled.
\<close>

record flow =
  bridge :: "Bridge option"
  local_uuid :: "string option"
  discovered_bridges :: "(string \<times> Bridge) list option"
  unique_id :: "string option"
  source :: "string option"
  entry_id :: "string option"
  calls :: "event list"
  tasks :: "string list"

type_synonym 'a outcome = "(exn + 'a) \<times> flow"

text \<open>A call on the bridge is recorded, whether it returns or raises.\<close>

definition bridge_call :: "env \<Rightarrow> event \<Rightarrow> flow \<Rightarrow> exn option \<times> flow" where
  "bridge_call e c s = (lib e (calls s) c, s\<lparr>calls := calls s @ [c]\<rparr>)"

text \<open>\<open>d.get(k)\<close> on a dictionary of values: a missing key gives \<open>None\<close>.\<close>

definition dict_get :: "(string \<times> val) list \<Rightarrow> string \<Rightarrow> val" where
  "dict_get d k = (case map_of d k of None \<Rightarrow> VNone | Some v \<Rightarrow> v)"

subsection \<open>The PIN\<close>

text \<open>
  \<open>PIN_VALIDATOR\<close>: coerce to \<open>int\<close>, then require the range 0 to 9999. \<open>None\<close> stands
  for \<open>vol.Invalid\<close>.
\<close>

definition PIN_VALIDATOR :: "env \<Rightarrow> val \<Rightarrow> int option" where
  "PIN_VALIDATOR e v =
     (case coerce_int e v of
        None \<Rightarrow> None
      | Some n \<Rightarrow> if 0 \<le> n \<and> n \<le> 9999 then Some n else None)"

text \<open>\<open>_parse_optional_pin\<close> returns the PIN and the error dictionary as it leaves it.\<close>

definition parse_optional_pin ::
  "env \<Rightarrow> (string \<times> val) list \<Rightarrow> (string \<times> string) list \<Rightarrow> val \<times> (string \<times> string) list" where
  "parse_optional_pin e user_input errors =
     (let pin_input = (case map_of user_input CONF_PIN of None \<Rightarrow> VStr [] | Some v \<Rightarrow> v)
      in if pin_input = VStr [] then (VNone, errors)
         else case PIN_VALIDATOR e pin_input of
                None \<Rightarrow> (VNone, AList.update CONF_PIN ''invalid_pin'' errors)
              | Some pin \<Rightarrow> (VInt pin, errors))"

subsection \<open>The forms\<close>

definition show_user_form :: "flow \<Rightarrow> (string \<times> string) list \<Rightarrow> string option \<Rightarrow> FlowResult" where
  "show_user_form s errors selected_uuid =
     Form ''user'' errors
       (UserSchema selected_uuid
          (AList.update COMFOCONNECT_MANUAL_BRIDGE_ID ''Manually add a ComfoConnect LAN C Bridge''
             (foldl (\<lambda>d b. AList.update (uuid b) (host b) d) []
                (map snd (case discovered_bridges s of None \<Rightarrow> [] | Some d \<Rightarrow> d)))))"

definition show_manual_form :: "(string \<times> string) list \<Rightarrow> val \<Rightarrow> FlowResult" where
  "show_manual_form errors h =
     Form ''manual'' errors (ManualSchema (if h \<noteq> VNone then Some h else None))"

subsection \<open>Registration and the PIN step\<close>

text \<open>
  The \<open>finally\<close> clause of \<open>_register\<close>: the bridge is disconnected whatever the
  \<open>try\<close> block did, and an exception of the disconnect replaces the block's outcome.
  The block's outcome is an exception, a returned result, or \<open>Inr None\<close> when it ran
  to its end.
\<close>

definition finally_disconnect ::
  "env \<Rightarrow> Bridge \<Rightarrow> (FlowResult option) outcome \<Rightarrow> (FlowResult option) outcome" where
  "finally_disconnect e b out =
     (case bridge_call e (Disconnect b) (snd out) of
        (Some x, s) \<Rightarrow> (Inl x, s)
      | (None, s) \<Rightarrow> (fst out, s))"

text \<open>The end of \<open>_register\<close>, after the \<open>finally\<close> clause.\<close>

definition register_done :: "Bridge \<Rightarrow> string \<Rightarrow> flow \<Rightarrow> FlowResult outcome" where
  "register_done b lu s =
     (if source s = Some SOURCE_REAUTH then
        (case entry_id s of
           None \<Rightarrow> (Inl KeyError, s)
         | Some i \<Rightarrow> (Inr (Abort ''reauth_successful''), s\<lparr>tasks := tasks s @ [i]\<rparr>))
      else
        (Inr (CreateEntry (host b)
               [(CONF_HOST, VStr (host b)), (CONF_UUID, VStr (uuid b)),
                (CONF_LOCAL_UUID, VStr lu)]), s))"

definition app_name :: "env \<Rightarrow> string" where
  "app_name e = ''Home Assistant ('' @ location_name e @ '')''"

text \<open>
  The first inner \<open>try\<close>: with a PIN the app is registered, and a refusal is passed
  over (the app is registered already). The result is the exception that leaves the
  statement, if any.
\<close>

definition register_with_pin :: "env \<Rightarrow> val \<Rightarrow> Bridge \<Rightarrow> string \<Rightarrow> flow \<Rightarrow> exn option \<times> flow" where
  "register_with_pin e pin b lu s =
     (if pin \<noteq> VNone then
        (case bridge_call e (RegisterApp b lu (app_name e) pin) s of
           (Some ComfoConnectNotAllowed, s1) \<Rightarrow> (None, s1)
         | r \<Rightarrow> r)
      else (None, s))"

text \<open>A \<open>return\<close> inside the \<open>try\<close> block: the result, or the exception, of the call returned.\<close>

definition returning :: "FlowResult outcome \<Rightarrow> (FlowResult option) outcome" where
  "returning r = (case r of (Inl x, s) \<Rightarrow> (Inl x, s) | (Inr v, s) \<Rightarrow> (Inr (Some v), s))"

text \<open>
  The second inner \<open>try\<close>: the session is started; when the bridge refuses, a flow that
  has a PIN asks for a new one, and a flow that has none registers with the default PIN
  and starts the session again. \<open>enter_pin\<close> stands for the call
  \<open>self.async_step_enter_pin({}, errors)\<close>, with the errors it is given.
\<close>

definition start_session ::
  "env \<Rightarrow> ((string \<times> string) list option \<Rightarrow> flow \<Rightarrow> FlowResult outcome) \<Rightarrow> val \<Rightarrow> Bridge \<Rightarrow> string \<Rightarrow>
     flow \<Rightarrow> (FlowResult option) outcome" where
  "start_session e enter_pin pin b lu s =
     (case bridge_call e (StartSession b True) s of
        (None, s1) \<Rightarrow> (Inr None, s1)
      | (Some ComfoConnectNotAllowed, s1) \<Rightarrow>
         (if pin \<noteq> VNone then returning (enter_pin (Some [(''base'', ''invalid_pin'')]) s1)
          else
            (case bridge_call e (RegisterApp b lu (app_name e) (VStr DEFAULT_PIN)) s1 of
               (Some ComfoConnectNotAllowed, s2) \<Rightarrow> returning (enter_pin (Some []) s2)
             | (Some x, s2) \<Rightarrow> (Inl x, s2)
             | (None, s2) \<Rightarrow>
                (case bridge_call e (StartSession b True) s2 of
                   (None, s3) \<Rightarrow> (Inr None, s3)
                 | (Some x, s3) \<Rightarrow> (Inl x, s3))))
      | (Some x, s1) \<Rightarrow> (Inl x, s1))"

text \<open>The body of the outer \<open>try\<close>.\<close>

definition try_block ::
  "env \<Rightarrow> ((string \<times> string) list option \<Rightarrow> flow \<Rightarrow> FlowResult outcome) \<Rightarrow> val \<Rightarrow> Bridge \<Rightarrow> string \<Rightarrow>
     flow \<Rightarrow> (FlowResult option) outcome" where
  "try_block e enter_pin pin b lu s =
     (case register_with_pin e pin b lu s of
        (Some x, s1) \<Rightarrow> (Inl x, s1)
      | (None, s1) \<Rightarrow> start_session e enter_pin pin b lu s1)"

text \<open>
  The local identifier \<open>_register\<close> works with: the one the flow has, or a generated
  one when it has none.
\<close>

definition own_uuid :: "env \<Rightarrow> flow \<Rightarrow> string" where
  "own_uuid e s = (case local_uuid s of None \<Rightarrow> random_uuid_hex e | Some u \<Rightarrow> u)"

text \<open>
  \<open>_register\<close> and \<open>async_step_enter_pin\<close> call each other: the PIN step registers with
  the PIN it was given, and the registration hands over to the PIN step, with an empty
  input, when the bridge refuses. The PIN of \<open>_register\<close> is a value, \<open>VNone\<close> for
  Python's \<open>None\<close>. The PIN step registers when its input is not empty and has the key
  \<open>CONF_PIN\<close>, that is, when the input has the key.
\<close>

function
  register :: "env \<Rightarrow> val \<Rightarrow> flow \<Rightarrow> FlowResult outcome" and
  async_step_enter_pin ::
    "env \<Rightarrow> (string \<times> val) list option \<Rightarrow> (string \<times> string) list option \<Rightarrow> flow \<Rightarrow> FlowResult outcome"
where
  "register e pin s0 =
     (let lu = own_uuid e s0;
          s1 = s0\<lparr>local_uuid := Some lu\<rparr>
      in case bridge s1 of
           None \<Rightarrow> (Inl AttributeError, s1)
         | Some b \<Rightarrow>
            (case bridge_call e (Connect b lu) s1 of
               (Some x, s2) \<Rightarrow> (Inl x, s2)
             | (None, s2) \<Rightarrow>
                (case finally_disconnect e b
                        (try_block e (\<lambda>errors s. async_step_enter_pin e (Some []) errors s)
                           pin b lu s2) of
                   (Inl x, s3) \<Rightarrow> (Inl x, s3)
                 | (Inr (Some r), s3) \<Rightarrow> (Inr r, s3)
                 | (Inr None, s3) \<Rightarrow> register_done b lu s3)))"
| "async_step_enter_pin e user_input errors s =
     (case (case user_input of
              None \<Rightarrow> None
            | Some ui \<Rightarrow> map_of ui CONF_PIN) of
        Some p \<Rightarrow>
          (case register e p s of
             (Inl AioComfoConnectTimeout, s1) \<Rightarrow>
               (Inr (Form ''enter_pin'' [(''base'', ''cannot_connect'')] PinSchema), s1)
           | r \<Rightarrow> r)
      | None \<Rightarrow>
          (Inr (Form ''enter_pin'' (case errors of None \<Rightarrow> [] | Some er \<Rightarrow> er) PinSchema), s))"
  by pat_completeness auto
termination
  by (relation "measure (\<lambda>x. case x of
         Inl _ \<Rightarrow> 1
       | Inr (e, user_input, errors, s) \<Rightarrow>
           (case user_input of
              None \<Rightarrow> 0
            | Some ui \<Rightarrow> (case map_of ui CONF_PIN of None \<Rightarrow> 0 | Some _ \<Rightarrow> 2)))")
     (auto split: option.splits)

declare register.simps [simp del]
declare async_step_enter_pin.simps [simp del]

subsection \<open>The user step and the manual step\<close>

text \<open>
  The end of \<open>async_step_user\<close>: the bridges on the network that are not configured
  yet are stored in the flow, a later bridge replacing an earlier one of the same
  identifier, and the selection form is shown.
\<close>

definition user_discover :: "env \<Rightarrow> (string \<times> string) list \<Rightarrow> flow \<Rightarrow> FlowResult outcome" where
  "user_discover e errors s =
     (let bridges = discover_bridges e None;
          s1 = s\<lparr>discovered_bridges :=
                  Some (foldl (\<lambda>d b. AList.update (uuid b) b d) []
                          (filter (\<lambda>b. uuid b \<notin> set (current_ids e)) bridges))\<rparr>
      in (Inr (show_user_form s1 errors None), s1))"

text \<open>
  \<open>async_set_unique_id\<close> followed by \<open>_abort_if_unique_id_configured\<close>: the unique
  id is stored in the context, and the flow aborts when the platform finds it
  configured.
\<close>

definition set_unique_id_or_abort :: "env \<Rightarrow> string \<Rightarrow> flow \<Rightarrow> exn option \<times> flow" where
  "set_unique_id_or_abort e u s =
     (let s1 = s\<lparr>unique_id := Some u\<rparr>
      in if unique_id_configured e u then (Some (AbortFlow ''already_configured''), s1)
         else (None, s1))"

definition async_step_manual :: "env \<Rightarrow> (string \<times> val) list option \<Rightarrow> flow \<Rightarrow> FlowResult outcome" where
  "async_step_manual e user_input s =
     (case user_input of
        None \<Rightarrow> (Inr (show_manual_form [] VNone), s)
      | Some ui \<Rightarrow>
         (case map_of ui CONF_HOST of
            None \<Rightarrow> (Inl KeyError, s)
          | Some h \<Rightarrow>
             if h \<noteq> VNone then
               (case discover_bridges e (Some h) of
                  [] \<Rightarrow> (Inr (show_manual_form [(''base'', ''invalid_host'')] (dict_get ui CONF_HOST)), s)
                | b # _ \<Rightarrow>
                   (case set_unique_id_or_abort e (uuid b) (s\<lparr>bridge := Some b\<rparr>) of
                      (Some x, s1) \<Rightarrow> (Inl x, s1)
                    | (None, s1) \<Rightarrow>
                       (let (pin, errors) = parse_optional_pin e ui []
                        in if errors \<noteq> [] then
                             (Inr (show_manual_form errors (dict_get ui CONF_HOST)), s1)
                           else
                             (case register e pin s1 of
                                (Inl AioComfoConnectTimeout, s2) \<Rightarrow>
                                  (Inr (show_manual_form
                                          (AList.update ''base'' ''cannot_connect'' errors)
                                          (dict_get ui CONF_HOST)), s2)
                              | r \<Rightarrow> r))))
             else (Inr (show_manual_form [] (dict_get ui CONF_HOST)), s)))"

definition async_step_user :: "env \<Rightarrow> (string \<times> val) list option \<Rightarrow> flow \<Rightarrow> FlowResult outcome" where
  "async_step_user e user_input s =
     (case user_input of
        None \<Rightarrow> user_discover e [] s
      | Some ui \<Rightarrow>
         (case map_of ui CONF_UUID of
            None \<Rightarrow> (Inl KeyError, s)
          | Some v \<Rightarrow>
             if v = VStr COMFOCONNECT_MANUAL_BRIDGE_ID then async_step_manual e None s
             else if v \<noteq> VNone then
               (case discovered_bridges s of
                  None \<Rightarrow> (Inl TypeError, s)
                | Some d \<Rightarrow>
                   (case (case v of VStr k \<Rightarrow> map_of d k | _ \<Rightarrow> None) of
                      None \<Rightarrow> (Inl KeyError, s)
                    | Some b \<Rightarrow>
                       (case set_unique_id_or_abort e (uuid b) (s\<lparr>bridge := Some b\<rparr>) of
                          (Some x, s1) \<Rightarrow> (Inl x, s1)
                        | (None, s1) \<Rightarrow>
                           (case register e VNone s1 of
                              (Inl AioComfoConnectTimeout, s2) \<Rightarrow>
                                user_discover e [(''base'', ''cannot_connect'')] s2
                            | r \<Rightarrow> r))))
             else user_discover e [] s))"

subsection \<open>Reading the record of bridge calls\<close>

text \<open>The calls a step has added to the record it started from.\<close>

definition new_calls :: "flow \<Rightarrow> flow \<Rightarrow> event list" where
  "new_calls s s' = drop (length (calls s)) (calls s')"

fun is_disconnect :: "event \<Rightarrow> bool" where
  "is_disconnect (Disconnect b) = True"
| "is_disconnect ev = False"

text \<open>A call that passes a local identifier passes this one.\<close>

fun uses_uuid :: "string \<Rightarrow> event \<Rightarrow> bool" where
  "uses_uuid lu (Connect b u) = (u = lu)"
| "uses_uuid lu (RegisterApp b u n p) = (u = lu)"
| "uses_uuid lu ev = True"

text \<open>The PIN form, as \<open>async_step_enter_pin\<close> shows it when it does not register.\<close>

definition enter_pin_form :: "(string \<times> string) list option \<Rightarrow> flow \<Rightarrow> FlowResult outcome" where
  "enter_pin_form errors s =
     (Inr (Form ''enter_pin'' (case errors of None \<Rightarrow> [] | Some er \<Rightarrow> er) PinSchema), s)"

text \<open>
  A part of the \<open>try\<close> block changes nothing of the flow but the record of calls, passes
  the local identifier \<open>lu\<close> wherever it passes one, and does not disconnect.
\<close>

definition block_step :: "string \<Rightarrow> flow \<Rightarrow> flow \<Rightarrow> bool" where
  "block_step lu s s' =
     (s' = s\<lparr>calls := calls s @ new_calls s s'\<rparr> \<and> list_all (uses_uuid lu) (new_calls s s')
      \<and> \<not> list_ex is_disconnect (new_calls s s'))"

subsection \<open>Example environments\<close>

text \<open>A library that answers the calls of one run in order, from a list of outcomes.\<close>

definition lib_script :: "exn option list \<Rightarrow> event list \<Rightarrow> event \<Rightarrow> exn option" where
  "lib_script outs h c = (if length h < length outs then outs ! length h else None)"

definition bridge0 :: Bridge where
  "bridge0 = \<lparr>host = ''192.168.1.10'', uuid = ''00aa''\<rparr>"

text \<open>A coercion that accepts exactly the non-empty strings of decimal digits.\<close>

definition digits_int :: "val \<Rightarrow> int option" where
  "digits_int v =
     (case v of
        VStr cs \<Rightarrow>
          if cs \<noteq> [] \<and> list_all (\<lambda>c. c \<in> set ''0123456789'') cs
          then Some (foldl (\<lambda>n c. 10 * n + (int (of_char c) - 48)) 0 cs)
          else None
      | VInt n \<Rightarrow> Some n
      | VNone \<Rightarrow> None)"

definition env0 :: "exn option list \<Rightarrow> env" where
  "env0 outs =
     \<lparr>lib = lib_script outs,
      discover_bridges = (\<lambda>h. [bridge0]),
      random_uuid_hex = ''f00d'',
      current_ids = [],
      unique_id_configured = (\<lambda>u. False),
      coerce_int = digits_int,
      location_name = ''Home''\<rparr>"

definition flow0 :: flow where
  "flow0 =
     \<lparr>bridge = None, local_uuid = None, discovered_bridges = None, unique_id = None,
      source = Some ''user'', entry_id = None, calls = [], tasks = []\<rparr>"

text \<open>A flow whose target is the example bridge.\<close>

definition flow1 :: flow where
  "flow1 = flow0\<lparr>bridge := Some bridge0\<rparr>"

section \<open>Properties\<close>

subsection \<open>The registration routine, unfolded\<close>

lemma enter_pin_empty:
  "async_step_enter_pin e (Some []) errors s = enter_pin_form errors s"
  by (simp add: async_step_enter_pin.simps enter_pin_form_def)

lemma register_unfold:
  "register e pin s =
     (case bridge s of
        None \<Rightarrow> (Inl AttributeError, s\<lparr>local_uuid := Some (own_uuid e s)\<rparr>)
      | Some b \<Rightarrow>
         (case bridge_call e (Connect b (own_uuid e s)) (s\<lparr>local_uuid := Some (own_uuid e s)\<rparr>) of
            (Some x, s2) \<Rightarrow> (Inl x, s2)
          | (None, s2) \<Rightarrow>
             (case finally_disconnect e b (try_block e enter_pin_form pin b (own_uuid e s) s2) of
                (Inl x, s3) \<Rightarrow> (Inl x, s3)
              | (Inr (Some r), s3) \<Rightarrow> (Inr r, s3)
              | (Inr None, s3) \<Rightarrow> register_done b (own_uuid e s) s3)))"
proof -
  have k: "(\<lambda>errors s. async_step_enter_pin e (Some []) errors s) = enter_pin_form"
    by (intro ext) (rule enter_pin_empty)
  show ?thesis
    unfolding register.simps [of e pin s] k Let_def by simp
qed

lemma block_step_refl: "block_step lu s s"
  by (simp add: block_step_def new_calls_def)

lemma block_step_trans:
  assumes "block_step lu s s1" and "block_step lu s1 s2"
  shows "block_step lu s s2"
proof -
  obtain n1 where n1: "s1 = s\<lparr>calls := calls s @ n1\<rparr>" "list_all (uses_uuid lu) n1"
      "\<not> list_ex is_disconnect n1"
    using assms(1) unfolding block_step_def by blast
  obtain n2 where n2: "s2 = s1\<lparr>calls := calls s1 @ n2\<rparr>" "list_all (uses_uuid lu) n2"
      "\<not> list_ex is_disconnect n2"
    using assms(2) unfolding block_step_def by blast
  show ?thesis
    using n1 n2 by (simp add: block_step_def new_calls_def)
qed

lemma register_with_pin_step: "block_step lu s (snd (register_with_pin e pin b lu s))"
  by (simp add: register_with_pin_def bridge_call_def block_step_def new_calls_def
        split: option.splits exn.splits)

lemma start_session_step: "block_step lu s (snd (start_session e enter_pin_form pin b lu s))"
  by (simp add: start_session_def bridge_call_def enter_pin_form_def returning_def
        block_step_def new_calls_def split: option.splits exn.splits)

lemma try_block_step: "block_step lu s (snd (try_block e enter_pin_form pin b lu s))"
proof (cases "register_with_pin e pin b lu s")
  case (Pair r s1)
  have 1: "block_step lu s s1"
    using register_with_pin_step [of lu s e pin b] Pair by simp
  show ?thesis
  proof (cases r)
    case None
    then have "try_block e enter_pin_form pin b lu s = start_session e enter_pin_form pin b lu s1"
      using Pair by (simp add: try_block_def)
    then show ?thesis
      using block_step_trans [OF 1 start_session_step] by simp
  next
    case (Some x)
    then show ?thesis
      using Pair 1 by (simp add: try_block_def)
  qed
qed

lemma register_done_frame:
  "\<exists>tk. snd (register_done b lu s) = s\<lparr>tasks := tk\<rparr>"
  by (cases s) (simp add: register_done_def split: option.splits)

lemma register_done_calls: "calls (snd (register_done b lu s)) = calls s"
  by (simp add: register_done_def split: option.splits)

lemma try_block_returns:
  "fst (try_block e enter_pin_form pin b lu s) = Inr (Some r) \<Longrightarrow>
     r = Form ''enter_pin'' (if pin \<noteq> VNone then [(''base'', ''invalid_pin'')] else []) PinSchema"
  by (simp add: try_block_def start_session_def register_with_pin_def bridge_call_def
        enter_pin_form_def returning_def split: option.splits exn.splits if_splits)

lemma register_connected:
  assumes b: "bridge s = Some b"
    and c: "lib e (calls s) (Connect b (own_uuid e s)) = None"
  obtains out mid where
    "try_block e enter_pin_form pin b (own_uuid e s)
       (s\<lparr>local_uuid := Some (own_uuid e s), calls := calls s @ [Connect b (own_uuid e s)]\<rparr>)
     = (out, s\<lparr>local_uuid := Some (own_uuid e s),
               calls := calls s @ Connect b (own_uuid e s) # mid\<rparr>)"
    and "list_all (uses_uuid (own_uuid e s)) mid"
    and "\<not> list_ex is_disconnect mid"
    and "register e pin s =
       (case lib e (calls s @ Connect b (own_uuid e s) # mid) (Disconnect b) of
          Some x \<Rightarrow> (Inl x, s\<lparr>local_uuid := Some (own_uuid e s),
                     calls := calls s @ Connect b (own_uuid e s) # mid @ [Disconnect b]\<rparr>)
        | None \<Rightarrow>
           (case out of
              Inl x \<Rightarrow> (Inl x, s\<lparr>local_uuid := Some (own_uuid e s),
                     calls := calls s @ Connect b (own_uuid e s) # mid @ [Disconnect b]\<rparr>)
            | Inr (Some r) \<Rightarrow> (Inr r, s\<lparr>local_uuid := Some (own_uuid e s),
                     calls := calls s @ Connect b (own_uuid e s) # mid @ [Disconnect b]\<rparr>)
            | Inr None \<Rightarrow> register_done b (own_uuid e s)
                    (s\<lparr>local_uuid := Some (own_uuid e s),
                     calls := calls s @ Connect b (own_uuid e s) # mid @ [Disconnect b]\<rparr>)))"
proof -
  define lu where "lu = own_uuid e s"
  define s2 where "s2 = s\<lparr>local_uuid := Some lu, calls := calls s @ [Connect b lu]\<rparr>"
  obtain out s3 where tb: "try_block e enter_pin_form pin b lu s2 = (out, s3)"
    by (cases "try_block e enter_pin_form pin b lu s2")
  have "block_step lu s2 s3"
    using try_block_step [of lu s2 e pin b] tb by simp
  then obtain mid where mid: "s3 = s2\<lparr>calls := calls s2 @ mid\<rparr>"
      "list_all (uses_uuid lu) mid" "\<not> list_ex is_disconnect mid"
    unfolding block_step_def by blast
  have s3: "s3 = s\<lparr>local_uuid := Some lu, calls := calls s @ Connect b lu # mid\<rparr>"
    using mid(1) by (simp add: s2_def)
  have reg: "register e pin s =
       (case lib e (calls s @ Connect b lu # mid) (Disconnect b) of
          Some x \<Rightarrow> (Inl x, s\<lparr>local_uuid := Some lu,
                     calls := calls s @ Connect b lu # mid @ [Disconnect b]\<rparr>)
        | None \<Rightarrow>
           (case out of
              Inl x \<Rightarrow> (Inl x, s\<lparr>local_uuid := Some lu,
                     calls := calls s @ Connect b lu # mid @ [Disconnect b]\<rparr>)
            | Inr (Some r) \<Rightarrow> (Inr r, s\<lparr>local_uuid := Some lu,
                     calls := calls s @ Connect b lu # mid @ [Disconnect b]\<rparr>)
            | Inr None \<Rightarrow> register_done b lu
                    (s\<lparr>local_uuid := Some lu,
                     calls := calls s @ Connect b lu # mid @ [Disconnect b]\<rparr>)))"
    using b c tb
    by (simp add: register_unfold [of e pin s] bridge_call_def finally_disconnect_def
          lu_def [symmetric] s2_def [symmetric] s3 split: option.splits sum.splits)
  show ?thesis
    using that [of out mid] tb mid(2,3) reg unfolding s3 s2_def lu_def by simp
qed

lemma register_calls:
  assumes "bridge s = Some b"
    and "lib e (calls s) (Connect b (own_uuid e s)) = None"
  obtains mid where
    "calls (snd (register e pin s)) = calls s @ Connect b (own_uuid e s) # mid @ [Disconnect b]"
    and "list_all (uses_uuid (own_uuid e s)) mid"
    and "\<not> list_ex is_disconnect mid"
proof -
  obtain out mid where
    mid: "list_all (uses_uuid (own_uuid e s)) mid" "\<not> list_ex is_disconnect mid" and
    reg: "register e pin s =
       (case lib e (calls s @ Connect b (own_uuid e s) # mid) (Disconnect b) of
          Some x \<Rightarrow> (Inl x, s\<lparr>local_uuid := Some (own_uuid e s),
                     calls := calls s @ Connect b (own_uuid e s) # mid @ [Disconnect b]\<rparr>)
        | None \<Rightarrow>
           (case out of
              Inl x \<Rightarrow> (Inl x, s\<lparr>local_uuid := Some (own_uuid e s),
                     calls := calls s @ Connect b (own_uuid e s) # mid @ [Disconnect b]\<rparr>)
            | Inr (Some r) \<Rightarrow> (Inr r, s\<lparr>local_uuid := Some (own_uuid e s),
                     calls := calls s @ Connect b (own_uuid e s) # mid @ [Disconnect b]\<rparr>)
            | Inr None \<Rightarrow> register_done b (own_uuid e s)
                    (s\<lparr>local_uuid := Some (own_uuid e s),
                     calls := calls s @ Connect b (own_uuid e s) # mid @ [Disconnect b]\<rparr>)))"
    using register_connected [OF assms, of pin] by metis
  have "calls (snd (register e pin s)) = calls s @ Connect b (own_uuid e s) # mid @ [Disconnect b]"
    unfolding reg by (simp add: register_done_calls split: option.splits sum.splits)
  then show ?thesis
    using that mid by blast
qed

lemma register_not_connected:
  assumes "bridge s = Some b"
    and "lib e (calls s) (Connect b (own_uuid e s)) = Some x"
  shows "register e pin s =
    (Inl x, s\<lparr>local_uuid := Some (own_uuid e s), calls := calls s @ [Connect b (own_uuid e s)]\<rparr>)"
  using assms by (simp add: register_unfold [of e pin s] bridge_call_def)

lemma register_no_bridge:
  assumes "bridge s = None"
  shows "register e pin s = (Inl AttributeError, s\<lparr>local_uuid := Some (own_uuid e s)\<rparr>)"
  using assms by (simp add: register_unfold [of e pin s])

lemma register_done_keeps:
  "bridge (snd (register_done b lu s)) = bridge s"
  "local_uuid (snd (register_done b lu s)) = local_uuid s"
  "unique_id (snd (register_done b lu s)) = unique_id s"
  "source (snd (register_done b lu s)) = source s"
  "discovered_bridges (snd (register_done b lu s)) = discovered_bridges s"
  by (simp_all add: register_done_def split: option.splits)

lemma register_keeps:
  "bridge (snd (register e pin s)) = bridge s
   \<and> local_uuid (snd (register e pin s)) = Some (own_uuid e s)
   \<and> unique_id (snd (register e pin s)) = unique_id s
   \<and> source (snd (register e pin s)) = source s
   \<and> discovered_bridges (snd (register e pin s)) = discovered_bridges s"
proof (cases "bridge s")
  case None
  show ?thesis
    unfolding register_no_bridge [OF None] by simp
next
  case (Some b)
  show ?thesis
  proof (cases "lib e (calls s) (Connect b (own_uuid e s))")
    case (Some x)
    show ?thesis
      unfolding register_not_connected [OF \<open>bridge s = Some b\<close> Some] by simp
  next
    case None
    obtain out mid where
      reg: "register e pin s =
       (case lib e (calls s @ Connect b (own_uuid e s) # mid) (Disconnect b) of
          Some x \<Rightarrow> (Inl x, s\<lparr>local_uuid := Some (own_uuid e s),
                     calls := calls s @ Connect b (own_uuid e s) # mid @ [Disconnect b]\<rparr>)
        | None \<Rightarrow>
           (case out of
              Inl x \<Rightarrow> (Inl x, s\<lparr>local_uuid := Some (own_uuid e s),
                     calls := calls s @ Connect b (own_uuid e s) # mid @ [Disconnect b]\<rparr>)
            | Inr (Some r) \<Rightarrow> (Inr r, s\<lparr>local_uuid := Some (own_uuid e s),
                     calls := calls s @ Connect b (own_uuid e s) # mid @ [Disconnect b]\<rparr>)
            | Inr None \<Rightarrow> register_done b (own_uuid e s)
                    (s\<lparr>local_uuid := Some (own_uuid e s),
                     calls := calls s @ Connect b (own_uuid e s) # mid @ [Disconnect b]\<rparr>)))"
      using register_connected [OF \<open>bridge s = Some b\<close> None, of pin] by metis
    show ?thesis
      unfolding reg by (simp add: register_done_keeps split: option.splits sum.splits)
  qed
qed

lemma register_result:
  assumes b: "bridge s = Some b"
    and r: "fst (register e pin s) = Inr r"
  shows "r = Form ''enter_pin'' (if pin \<noteq> VNone then [(''base'', ''invalid_pin'')] else []) PinSchema
     \<or> (source s = Some SOURCE_REAUTH \<and> r = Abort ''reauth_successful'')
     \<or> (source s \<noteq> Some SOURCE_REAUTH \<and>
         r = CreateEntry (host b)
               [(CONF_HOST, VStr (host b)), (CONF_UUID, VStr (uuid b)),
                (CONF_LOCAL_UUID, VStr (own_uuid e s))])"
proof (cases "lib e (calls s) (Connect b (own_uuid e s))")
  case (Some x)
  show ?thesis
    using r unfolding register_not_connected [OF b Some] by simp
next
  case None
  obtain out mid where
    tb: "try_block e enter_pin_form pin b (own_uuid e s)
       (s\<lparr>local_uuid := Some (own_uuid e s), calls := calls s @ [Connect b (own_uuid e s)]\<rparr>)
     = (out, s\<lparr>local_uuid := Some (own_uuid e s),
               calls := calls s @ Connect b (own_uuid e s) # mid\<rparr>)" and
    reg: "register e pin s =
       (case lib e (calls s @ Connect b (own_uuid e s) # mid) (Disconnect b) of
          Some x \<Rightarrow> (Inl x, s\<lparr>local_uuid := Some (own_uuid e s),
                     calls := calls s @ Connect b (own_uuid e s) # mid @ [Disconnect b]\<rparr>)
        | None \<Rightarrow>
           (case out of
              Inl x \<Rightarrow> (Inl x, s\<lparr>local_uuid := Some (own_uuid e s),
                     calls := calls s @ Connect b (own_uuid e s) # mid @ [Disconnect b]\<rparr>)
            | Inr (Some r) \<Rightarrow> (Inr r, s\<lparr>local_uuid := Some (own_uuid e s),
                     calls := calls s @ Connect b (own_uuid e s) # mid @ [Disconnect b]\<rparr>)
            | Inr None \<Rightarrow> register_done b (own_uuid e s)
                    (s\<lparr>local_uuid := Some (own_uuid e s),
                     calls := calls s @ Connect b (own_uuid e s) # mid @ [Disconnect b]\<rparr>)))"
    using register_connected [OF b None, of pin] by metis
  show ?thesis
  proof (cases out)
    case (Inl x)
    then show ?thesis
      using r unfolding reg by (simp split: option.splits)
  next
    case (Inr ro)
    show ?thesis
    proof (cases ro)
      case None
      then show ?thesis
        using r Inr unfolding reg
        by (auto simp: register_done_def split: option.splits if_splits)
    next
      case (Some r')
      have "fst (try_block e enter_pin_form pin b (own_uuid e s)
         (s\<lparr>local_uuid := Some (own_uuid e s), calls := calls s @ [Connect b (own_uuid e s)]\<rparr>))
         = Inr (Some r')"
        unfolding tb using Inr Some by simp
      from try_block_returns [OF this]
      have "r' = Form ''enter_pin'' (if pin \<noteq> VNone then [(''base'', ''invalid_pin'')] else []) PinSchema" .
      moreover have "r = r'"
        using r Inr Some unfolding reg by (simp split: option.splits)
      ultimately show ?thesis
        by blast
    qed
  qed
qed


lemmas run_defs =
  bridge_call_def try_block_def register_with_pin_def start_session_def finally_disconnect_def
  register_done_def enter_pin_form_def returning_def app_name_def own_uuid_def new_calls_def

lemmas example_defs = env0_def flow0_def lib_script_def bridge0_def digits_int_def


lemmas eval_defs =
  register_unfold run_defs example_defs flow1_def DEFAULT_PIN_def
  CONF_HOST_def CONF_UUID_def CONF_LOCAL_UUID_def CONF_PIN_def SOURCE_REAUTH_def

subsection \<open>The claims\<close>

text \<open>
  C8. Once the connect call has returned, every run of \<open>_register\<close> disconnects the
  bridge exactly once, as its last call on the bridge: whether the routine completes,
  hands over to the PIN step, or lets an exception of the registration or of the session
  start through.
\<close>

theorem register_disconnects_once:
  assumes "bridge s = Some b"
    and "lib e (calls s) (Connect b (own_uuid e s)) = None"
  shows "take (length (calls s)) (calls (snd (register e pin s))) = calls s
       \<and> last (calls (snd (register e pin s))) = Disconnect b
       \<and> length (filter is_disconnect (new_calls s (snd (register e pin s)))) = 1"
proof -
  obtain mid where
    cs: "calls (snd (register e pin s)) = calls s @ Connect b (own_uuid e s) # mid @ [Disconnect b]"
    and mid: "\<not> list_ex is_disconnect mid"
    using register_calls [OF assms, of pin] by blast
  have "filter is_disconnect mid = []"
    using mid by (simp add: list_ex_iff filter_empty_conv)
  then show ?thesis
    by (simp add: new_calls_def cs)
qed

theorem register_disconnects_once_witness:
  "last (calls (snd (register (env0 [None, Some ComfoConnectNotAllowed, Some (OtherError ''reset'')])
       VNone (flow0\<lparr>bridge := Some bridge0\<rparr>)))) = Disconnect bridge0
   \<and> length (filter is_disconnect (new_calls (flow0\<lparr>bridge := Some bridge0\<rparr>)
        (snd (register (env0 [None, Some ComfoConnectNotAllowed, Some (OtherError ''reset'')])
       VNone (flow0\<lparr>bridge := Some bridge0\<rparr>))))) = 1
   \<and> fst (register (env0 [None, Some ComfoConnectNotAllowed, Some (OtherError ''reset'')])
       VNone (flow0\<lparr>bridge := Some bridge0\<rparr>)) = Inl (OtherError ''reset'')"
proof -
  have b: "bridge (flow0\<lparr>bridge := Some bridge0\<rparr>) = Some bridge0"
    by simp
  have c: "lib (env0 [None, Some ComfoConnectNotAllowed, Some (OtherError ''reset'')])
      (calls (flow0\<lparr>bridge := Some bridge0\<rparr>))
      (Connect bridge0 (own_uuid (env0 [None, Some ComfoConnectNotAllowed, Some (OtherError ''reset'')])
          (flow0\<lparr>bridge := Some bridge0\<rparr>))) = None"
    by (simp add: env0_def flow0_def lib_script_def)
  have r: "fst (register (env0 [None, Some ComfoConnectNotAllowed, Some (OtherError ''reset'')])
       VNone (flow0\<lparr>bridge := Some bridge0\<rparr>)) = Inl (OtherError ''reset'')"
    by (simp add: register_unfold env0_def flow0_def lib_script_def own_uuid_def bridge_call_def
          try_block_def register_with_pin_def start_session_def finally_disconnect_def DEFAULT_PIN_def app_name_def)
  show ?thesis
    using register_disconnects_once [OF b c, of VNone] r by simp
qed

end
